theory Spec2Isabelle
  imports Main "HOL-Library.Sublist"
begin

section \<open>Python strings\<close>

text \<open>
  Texts are modelled as \<open>string\<close>, one \<open>char\<close> per code point. A \<open>char\<close> has 256 values,
  so the texts of the model are those whose code points lie below 256 (ASCII and the
  Latin-1 supplement), and the character classes below are Python's on that range:
  \<open>str.lower\<close>, the whitespace of \<open>str.strip\<close> and of the pattern \<open>\s\<close>, the word
  characters of \<open>\w\<close> and \<open>\b\<close>, the digits of \<open>\d\<close>.
\<close>

definition latin_upper :: string where
  "latin_upper =
     [CHR 0xC0, CHR 0xC1, CHR 0xC2, CHR 0xC3, CHR 0xC4, CHR 0xC5, CHR 0xC6, CHR 0xC7,
      CHR 0xC8, CHR 0xC9, CHR 0xCA, CHR 0xCB, CHR 0xCC, CHR 0xCD, CHR 0xCE, CHR 0xCF,
      CHR 0xD0, CHR 0xD1, CHR 0xD2, CHR 0xD3, CHR 0xD4, CHR 0xD5, CHR 0xD6, CHR 0xD8,
      CHR 0xD9, CHR 0xDA, CHR 0xDB, CHR 0xDC, CHR 0xDD, CHR 0xDE]"

definition latin_lower :: string where
  "latin_lower =
     [CHR 0xE0, CHR 0xE1, CHR 0xE2, CHR 0xE3, CHR 0xE4, CHR 0xE5, CHR 0xE6, CHR 0xE7,
      CHR 0xE8, CHR 0xE9, CHR 0xEA, CHR 0xEB, CHR 0xEC, CHR 0xED, CHR 0xEE, CHR 0xEF,
      CHR 0xF0, CHR 0xF1, CHR 0xF2, CHR 0xF3, CHR 0xF4, CHR 0xF5, CHR 0xF6, CHR 0xF8,
      CHR 0xF9, CHR 0xFA, CHR 0xFB, CHR 0xFC, CHR 0xFD, CHR 0xFE]"

definition lower_char :: "char \<Rightarrow> char" where
  "lower_char c =
     (case map_of (zip (''ABCDEFGHIJKLMNOPQRSTUVWXYZ'' @ latin_upper)
                       (''abcdefghijklmnopqrstuvwxyz'' @ latin_lower)) c of
        Some d \<Rightarrow> d
      | None \<Rightarrow> c)"

text \<open>\<open>upper\<close> is applied by the code only to a matched \<open>am\<close> or \<open>pm\<close>.\<close>

definition upper_char :: "char \<Rightarrow> char" where
  "upper_char c =
     (case map_of (zip ''abcdefghijklmnopqrstuvwxyz'' ''ABCDEFGHIJKLMNOPQRSTUVWXYZ'') c of
        Some d \<Rightarrow> d
      | None \<Rightarrow> c)"

definition lower :: "string \<Rightarrow> string" where
  "lower s = map lower_char s"

definition upper :: "string \<Rightarrow> string" where
  "upper s = map upper_char s"

text \<open>
  Whitespace: tab, line feed, vertical tab, form feed, carriage return, the separators
  28 to 31, the blank, the next-line control U+0085 and the no-break space U+00A0.
\<close>

definition is_space :: "char \<Rightarrow> bool" where
  "is_space c = (c \<in> set [CHR 0x09, CHR 0x0A, CHR 0x0B, CHR 0x0C, CHR 0x0D,
                             CHR 0x1C, CHR 0x1D, CHR 0x1E, CHR 0x1F, CHR '' '',
                             CHR 0x85, CHR 0xA0])"

definition is_digit :: "char \<Rightarrow> bool" where
  "is_digit c = (c \<in> set ''0123456789'')"

definition is_alpha :: "char \<Rightarrow> bool" where
  "is_alpha c = (c \<in> set ''abcdefghijklmnopqrstuvwxyzABCDEFGHIJKLMNOPQRSTUVWXYZ'')"

text \<open>The class \<open>[A-Za-z0-9]\<close>.\<close>

definition is_alnum :: "char \<Rightarrow> bool" where
  "is_alnum c = (is_alpha c \<or> is_digit c)"

text \<open>
  The class \<open>\w\<close>: the ASCII letters and digits, the underscore, and the letters and
  numeric characters of the Latin-1 supplement.
\<close>

definition latin_word :: string where
  "latin_word =
     [CHR 0xAA, CHR 0xB2, CHR 0xB3, CHR 0xB5, CHR 0xB9, CHR 0xBA, CHR 0xBC, CHR 0xBD,
      CHR 0xBE, CHR 0xC0, CHR 0xC1, CHR 0xC2, CHR 0xC3, CHR 0xC4, CHR 0xC5, CHR 0xC6,
      CHR 0xC7, CHR 0xC8, CHR 0xC9, CHR 0xCA, CHR 0xCB, CHR 0xCC, CHR 0xCD, CHR 0xCE,
      CHR 0xCF, CHR 0xD0, CHR 0xD1, CHR 0xD2, CHR 0xD3, CHR 0xD4, CHR 0xD5, CHR 0xD6,
      CHR 0xD8, CHR 0xD9, CHR 0xDA, CHR 0xDB, CHR 0xDC, CHR 0xDD, CHR 0xDE, CHR 0xDF,
      CHR 0xE0, CHR 0xE1, CHR 0xE2, CHR 0xE3, CHR 0xE4, CHR 0xE5, CHR 0xE6, CHR 0xE7,
      CHR 0xE8, CHR 0xE9, CHR 0xEA, CHR 0xEB, CHR 0xEC, CHR 0xED, CHR 0xEE, CHR 0xEF,
      CHR 0xF0, CHR 0xF1, CHR 0xF2, CHR 0xF3, CHR 0xF4, CHR 0xF5, CHR 0xF6, CHR 0xF8,
      CHR 0xF9, CHR 0xFA, CHR 0xFB, CHR 0xFC, CHR 0xFD, CHR 0xFE, CHR 0xFF]"

definition is_word :: "char \<Rightarrow> bool" where
  "is_word c = (is_alnum c \<or> c = CHR ''_'' \<or> c \<in> set latin_word)"

text \<open>\<open>s.strip()\<close>: whitespace removed at both ends.\<close>

definition lstrip :: "string \<Rightarrow> string" where
  "lstrip s = dropWhile is_space s"

definition rstrip :: "string \<Rightarrow> string" where
  "rstrip s = rev (dropWhile is_space (rev s))"

definition strip :: "string \<Rightarrow> string" where
  "strip s = rstrip (lstrip s)"

text \<open>\<open>s.replace(' ', '')\<close>: every blank removed.\<close>

definition remove_blanks :: "string \<Rightarrow> string" where
  "remove_blanks s = filter (\<lambda>c. c \<noteq> CHR '' '') s"

text \<open>\<open>k in s\<close> on strings: \<open>k\<close> occurs in \<open>s\<close> as a contiguous run.\<close>

fun starts_with :: "string \<Rightarrow> string \<Rightarrow> bool" where
  "starts_with s [] = True"
| "starts_with [] (k # ks) = False"
| "starts_with (c # cs) (k # ks) = (c = k \<and> starts_with cs ks)"

fun str_in :: "string \<Rightarrow> string \<Rightarrow> bool" where
  "str_in k [] = (k = [])"
| "str_in k (c # cs) = (starts_with (c # cs) k \<or> str_in k cs)"

section \<open>Time normalizer (rag\_core.py, \<open>execute_tool_call\<close>)\<close>

text \<open>
  Values that reach the tools as arguments come from the model's function call: a missing
  or null argument is \<open>PNone\<close> (Python's \<open>None\<close>), a text is \<open>PStr\<close>. The tool schemas
  declare every argument a string, so no other kind of value is modelled.
\<close>

datatype pyval = PNone | PStr string

definition TIME_COLUMNS :: "string list" where
  "TIME_COLUMNS = [''9:00 AM'', ''10:00 AM'', ''11:00 AM'', ''12:00 PM'',
                   ''1:00 PM'', ''2:00 PM'', ''3:00 PM'', ''4:00 PM'']"

definition time_mapping :: "(string \<times> string) list" where
  "time_mapping =
    [(''9:00am'', ''9:00 AM''), (''10:00am'', ''10:00 AM''), (''11:00am'', ''11:00 AM''),
     (''12:00pm'', ''12:00 PM''), (''1:00pm'', ''1:00 PM''), (''2:00pm'', ''2:00 PM''),
     (''3:00pm'', ''3:00 PM''), (''4:00pm'', ''4:00 PM''),
     (''9am'', ''9:00 AM''), (''10am'', ''10:00 AM''), (''11am'', ''11:00 AM''),
     (''12pm'', ''12:00 PM''), (''1pm'', ''1:00 PM''), (''2pm'', ''2:00 PM''),
     (''3pm'', ''3:00 PM''), (''4pm'', ''4:00 PM''),
     (''09:00'', ''9:00 AM''), (''10:00'', ''10:00 AM''), (''11:00'', ''11:00 AM''),
     (''12:00'', ''12:00 PM''), (''13:00'', ''1:00 PM''), (''14:00'', ''2:00 PM''),
     (''15:00'', ''3:00 PM''), (''16:00'', ''4:00 PM'')]"

text \<open>
  The pattern \<open>^(0?[1-9]|1[0-6]):00(pm|am)$\<close> under \<open>re.match\<close>: the hour group and the
  suffix group of a match, if there is one. \<open>$\<close> also matches before a final line feed.
\<close>

definition hour_alternatives :: "string \<Rightarrow> (string \<times> string) list" where
  "hour_alternatives v =
     (case v of
        c # d # r \<Rightarrow>
          (if c = CHR ''0'' \<and> d \<in> set ''123456789'' then [([c, d], r)] else []) @
          (if c \<in> set ''123456789'' then [([c], d # r)] else []) @
          (if c = CHR ''1'' \<and> d \<in> set ''0123456'' then [([c, d], r)] else [])
      | [c] \<Rightarrow> (if c \<in> set ''123456789'' then [([c], [])] else [])
      | [] \<Rightarrow> [])"

definition time_tail :: "string \<Rightarrow> string option" where
  "time_tail r =
     (if r = '':00pm'' \<or> r = '':00pm'' @ [CHR 0x0A] then Some ''pm''
      else if r = '':00am'' \<or> r = '':00am'' @ [CHR 0x0A] then Some ''am''
      else None)"

fun first_time_match :: "(string \<times> string) list \<Rightarrow> (string \<times> string) option" where
  "first_time_match [] = None"
| "first_time_match ((hh, r) # alts) =
     (case time_tail r of Some ampm \<Rightarrow> Some (hh, ampm) | None \<Rightarrow> first_time_match alts)"

definition match_hour_suffix :: "string \<Rightarrow> (string \<times> string) option" where
  "match_hour_suffix v = first_time_match (hour_alternatives v)"

definition normalize_time :: "pyval \<Rightarrow> pyval" where
  "normalize_time value =
     (case value of
        PStr s \<Rightarrow>
          (let v = remove_blanks (lower (strip s)) in
           case map_of time_mapping v of
             Some label \<Rightarrow> PStr label
           | None \<Rightarrow>
               (case match_hour_suffix v of
                  Some (hh, ampm) \<Rightarrow>
                    (if upper ampm = ''AM'' \<and> hh \<in> set [''09'', ''9''] then PStr ''9:00 AM''
                     else if upper ampm = ''AM'' \<and> hh \<in> set [''10''] then PStr ''10:00 AM''
                     else if upper ampm = ''AM'' \<and> hh \<in> set [''11''] then PStr ''11:00 AM''
                     else if upper ampm = ''PM'' \<and> hh \<in> set [''12''] then PStr ''12:00 PM''
                     else if upper ampm = ''PM'' \<and> hh \<in> set [''13'', ''1''] then PStr ''1:00 PM''
                     else if upper ampm = ''PM'' \<and> hh \<in> set [''14'', ''2''] then PStr ''2:00 PM''
                     else if upper ampm = ''PM'' \<and> hh \<in> set [''15'', ''3''] then PStr ''3:00 PM''
                     else if upper ampm = ''PM'' \<and> hh \<in> set [''16'', ''4''] then PStr ''4:00 PM''
                     else value)
                | None \<Rightarrow> value))
      | _ \<Rightarrow> value)"

section \<open>Calendar dates (the part of \<open>datetime.date\<close> the code uses)\<close>

datatype date = Date (year: nat) (month: nat) (day: nat)

definition is_leap :: "nat \<Rightarrow> bool" where
  "is_leap y = (y mod 4 = 0 \<and> (y mod 100 \<noteq> 0 \<or> y mod 400 = 0))"

definition days_in_month :: "nat \<Rightarrow> nat \<Rightarrow> nat" where
  "days_in_month y m =
     (if m = 2 then (if is_leap y then 29 else 28)
      else if m \<in> set [4, 6, 9, 11] then 30 else 31)"

definition valid_date :: "date \<Rightarrow> bool" where
  "valid_date dt =
     (1 \<le> year dt \<and> year dt \<le> 9999 \<and> 1 \<le> month dt \<and> month dt \<le> 12
      \<and> 1 \<le> day dt \<and> day dt \<le> days_in_month (year dt) (month dt))"

text \<open>\<open>a < b\<close> on dates.\<close>

definition date_less :: "date \<Rightarrow> date \<Rightarrow> bool" where
  "date_less a b =
     (year a < year b \<or> (year a = year b \<and>
        (month a < month b \<or> (month a = month b \<and> day a < day b))))"

text \<open>\<open>dt + timedelta(days=1)\<close>; the clock is taken to be far from the year 9999.\<close>

definition next_day :: "date \<Rightarrow> date" where
  "next_day dt =
     (if day dt < days_in_month (year dt) (month dt) then Date (year dt) (month dt) (day dt + 1)
      else if month dt < 12 then Date (year dt) (month dt + 1) 1
      else Date (year dt + 1) 1 1)"

definition digit_char :: "nat \<Rightarrow> char" where
  "digit_char n = ''0123456789'' ! (n mod 10)"

definition pad2 :: "nat \<Rightarrow> string" where
  "pad2 n = [digit_char (n div 10), digit_char n]"

definition pad4 :: "nat \<Rightarrow> string" where
  "pad4 n = [digit_char (n div 1000), digit_char (n div 100), digit_char (n div 10), digit_char n]"

text \<open>\<open>dt.isoformat()\<close>, which is also \<open>dt.strftime("%Y-%m-%d")\<close> for a four-digit year.\<close>

definition isoformat :: "date \<Rightarrow> string" where
  "isoformat dt = pad4 (year dt) @ ''-'' @ pad2 (month dt) @ ''-'' @ pad2 (day dt)"

definition digit_value :: "char \<Rightarrow> nat" where
  "digit_value c = (case map_of (zip ''0123456789'' [0 ..< 10]) c of Some n \<Rightarrow> n | None \<Rightarrow> 0)"

definition number_of :: "string \<Rightarrow> nat" where
  "number_of s = foldl (\<lambda>n c. 10 * n + digit_value c) 0 s"

text \<open>
  Matching a fixed-width template at the front of a text: \<open>#\<close> in the template stands
  for \<open>\d\<close>, any other character for itself. The result is the text after the match.
\<close>

fun eat :: "string \<Rightarrow> string \<Rightarrow> string option" where
  "eat [] s = Some s"
| "eat (t # ts) [] = None"
| "eat (t # ts) (c # cs) =
     (if (if t = CHR ''#'' then is_digit c else c = t) then eat ts cs else None)"

definition iso_template :: string where
  "iso_template = ''####-##-##''"

text \<open>\<open>re.match(r'^\d{4}-\d{2}-\d{2}$', s)\<close>: \<open>$\<close> matches at the end and before a final line feed.\<close>

definition date_pattern_matches :: "string \<Rightarrow> bool" where
  "date_pattern_matches s =
     (case eat iso_template s of Some r \<Rightarrow> r = [] \<or> r = [CHR 0x0A] | None \<Rightarrow> False)"

text \<open>
  \<open>datetime.strptime(s, '%Y-%m-%d').date()\<close> on a text that passed the pattern: \<open>None\<close> is
  the \<open>ValueError\<close> (text left over, or no such day in the calendar).
\<close>

definition strptime_date :: "string \<Rightarrow> date option" where
  "strptime_date s =
     (case eat iso_template s of
        Some [] \<Rightarrow>
          (let dt = Date (number_of (take 4 s)) (number_of (take 2 (drop 5 s)))
                         (number_of (take 2 (drop 8 s)))
           in if valid_date dt then Some dt else None)
      | _ \<Rightarrow> None)"

section \<open>Parameter validation (booking\_tools.py)\<close>

datatype exn = TypeError string | AttributeError string | RequestException string
  | KeyError string | IndexError string | SheetError string | GenerationError string

text \<open>\<open>str(e)\<close>: the text of an exception, as CPython 3.11 words it.\<close>

definition quoted :: "string \<Rightarrow> string" where
  "quoted s = [CHR 0x27] @ s @ [CHR 0x27]"

fun str_exn :: "exn \<Rightarrow> string" where
  "str_exn (TypeError t) = t"
| "str_exn (AttributeError t) = t"
| "str_exn (RequestException t) = t"
| "str_exn (KeyError t) = t"
| "str_exn (IndexError t) = t"
| "str_exn (SheetError t) = t"
| "str_exn (GenerationError t) = t"

text \<open>Truth value of an argument: \<open>None\<close> and the empty text are false.\<close>

fun truthy :: "pyval \<Rightarrow> bool" where
  "truthy PNone = False"
| "truthy (PStr s) = (s \<noteq> [])"

text \<open>\<open>', '.join(xs)\<close> and \<open>'; '.join(xs)\<close>.\<close>

fun join :: "string \<Rightarrow> string list \<Rightarrow> string" where
  "join sep [] = []"
| "join sep [x] = x"
| "join sep (x # y # ys) = x @ sep @ join sep (y # ys)"

definition valid_times :: "string list" where
  "valid_times = [''9:00 AM'', ''10:00 AM'', ''11:00 AM'', ''12:00 PM'',
                  ''1:00 PM'', ''2:00 PM'', ''3:00 PM'', ''4:00 PM'']"

record validation =
  valid :: bool
  errors :: "string list"

text \<open>
  \<open>validate_booking_params(date, time)\<close>; \<open>today\<close> is the reading of
  \<open>datetime.now().date()\<close>. \<open>re.match\<close> on \<open>None\<close> raises the \<open>TypeError\<close> that the
  function does not catch.
\<close>

definition date_errors :: "date \<Rightarrow> string \<Rightarrow> string list" where
  "date_errors today d =
     (if \<not> date_pattern_matches d then [''Date must be in YYYY-MM-DD format'']
      else (case strptime_date d of
              Some booking_date \<Rightarrow>
                (if date_less booking_date today then [''Cannot book appointments in the past'']
                 else [])
            | None \<Rightarrow> [''Invalid date provided'']))"

definition time_errors :: "pyval \<Rightarrow> string list" where
  "time_errors t =
     (case t of
        PStr s \<Rightarrow>
          (if s \<noteq> [] \<and> s \<notin> set valid_times
           then [''Invalid time slot. Available: '' @ join '', '' valid_times] else [])
      | PNone \<Rightarrow> [])"

definition validate_booking_params :: "date \<Rightarrow> pyval \<Rightarrow> pyval \<Rightarrow> exn + validation" where
  "validate_booking_params today date_arg time_arg =
     (case date_arg of
        PNone \<Rightarrow> Inl (TypeError (''expected string or bytes-like object, got '' @ quoted ''NoneType''))
      | PStr d \<Rightarrow>
          (let errs = date_errors today d @ time_errors time_arg
           in Inr \<lparr>valid = (length errs = 0), errors = errs\<rparr>))"

section \<open>The slot store (apifunctions.py)\<close>

text \<open>
  The worksheet as \<open>get_all_values()\<close> returns it: the header row, then one row per date,
  every cell a text (an empty cell is the empty text) and every row as long as the header.
  \<open>None\<close> for the worksheet is the state in which the spreadsheet service cannot be opened
  (the calls of \<open>gspread\<close> raise). A JSON object whose values are texts is an association
  list.
\<close>

type_synonym sheet = "string list list"

type_synonym jobj = "(string \<times> string) list"

fun str_nat :: "nat \<Rightarrow> string" where
  "str_nat n = (if n < 10 then [digit_char n] else str_nat (n div 10) @ [digit_char n])"

definition open_sheet :: "sheet option \<Rightarrow> exn + sheet" where
  "open_sheet ws = (case ws of None \<Rightarrow> Inl (SheetError ''spreadsheet unavailable'')
                             | Some sh \<Rightarrow> Inr sh)"

text \<open>
  \<open>sheet.get_all_records()\<close>: one dictionary per data row, keyed by the header row, which
  must not repeat a name. By default every cell passes through \<open>numericise\<close>: a text that
  \<open>int()\<close> or \<open>float()\<close> accepts becomes that number, unless it contains an underscore.
  Of a number the code only asks whether it is zero, so a numeric cell is modelled by its
  kind and that answer.
\<close>

datatype cellval = CText string | CInt bool | CFloat bool

text \<open>The whitespace that \<open>int()\<close> and \<open>float()\<close> allow around a literal.\<close>

definition is_numeric_space :: "char \<Rightarrow> bool" where
  "is_numeric_space c = (c \<in> set [CHR 0x09, CHR 0x0A, CHR 0x0B, CHR 0x0C, CHR 0x0D, CHR '' '',
                                     CHR 0x85, CHR 0xA0])"

definition numeric_strip :: "string \<Rightarrow> string" where
  "numeric_strip s = rev (dropWhile is_numeric_space (rev (dropWhile is_numeric_space s)))"

definition unsigned :: "string \<Rightarrow> string" where
  "unsigned s = (case s of [] \<Rightarrow> []
                  | c # cs \<Rightarrow> (if c = CHR ''+'' \<or> c = CHR ''-'' then cs else s))"

text \<open>A decimal integer literal: its digits.\<close>

definition int_literal :: "string \<Rightarrow> string option" where
  "int_literal s =
     (let u = unsigned (numeric_strip s) in
      if u \<noteq> [] \<and> list_all is_digit u then Some u else None)"

text \<open>
  A decimal floating-point literal: the digits before the point, the digits after it and
  the exponent.
\<close>

definition int_of_digits :: "string \<Rightarrow> int" where
  "int_of_digits s = foldl (\<lambda>n c. 10 * n + int (digit_value c)) 0 s"

definition exponent_of :: "string \<Rightarrow> int option" where
  "exponent_of s =
     (case s of
        [] \<Rightarrow> Some 0
      | c # cs \<Rightarrow>
          (if c = CHR ''e'' \<or> c = CHR ''E'' then
             (let ds = unsigned cs in
              if ds \<noteq> [] \<and> list_all is_digit ds then
                Some (if take 1 cs = ''-'' then - int_of_digits ds else int_of_digits ds)
              else None)
           else None))"

definition float_literal :: "string \<Rightarrow> (string \<times> string \<times> int) option" where
  "float_literal s =
     (let u = unsigned (numeric_strip s);
          ip = takeWhile is_digit u;
          r1 = dropWhile is_digit u;
          fp = (if take 1 r1 = ''.'' then takeWhile is_digit (drop 1 r1) else []);
          r2 = (if take 1 r1 = ''.'' then dropWhile is_digit (drop 1 r1) else r1)
      in if ip @ fp = [] then None
         else (case exponent_of r2 of Some e \<Rightarrow> Some (ip, fp, e) | None \<Rightarrow> None))"

text \<open>A number written with these digits is not zero.\<close>

definition nonzero_digits :: "string \<Rightarrow> bool" where
  "nonzero_digits ds = list_ex (\<lambda>c. c \<noteq> CHR ''0'') ds"

text \<open>
  Whether \<open>float()\<close> of the literal is not zero. The literal stands for the decimal \<open>m\<close>
  times ten to the \<open>-k\<close>, which \<open>float()\<close> rounds to zero when it is at most half the
  smallest positive float, two to the \<open>-1075\<close>; with \<open>m\<close> at least one and \<open>k\<close> at most 323
  it is above that bound.
\<close>

definition float_nonzero :: "string \<Rightarrow> string \<Rightarrow> int \<Rightarrow> bool" where
  "float_nonzero ip fp e =
     (nonzero_digits (ip @ fp) \<and>
      (let k = int (length fp) - e in
       if k \<le> 323 then True else 10 ^ nat k < int_of_digits (ip @ fp) * 2 ^ 1075))"

definition numericise :: "string \<Rightarrow> cellval" where
  "numericise v =
     (if CHR ''_'' \<in> set v then CText v
      else (case int_literal v of
              Some ds \<Rightarrow> CInt (nonzero_digits ds)
            | None \<Rightarrow>
                (if lower (unsigned (numeric_strip v)) \<in> set [''inf'', ''infinity'', ''nan'']
                 then CFloat True
                 else (case float_literal v of
                         Some (ip, fp, e) \<Rightarrow> CFloat (float_nonzero ip fp e)
                       | None \<Rightarrow> CText v))))"

type_synonym record_row = "(string \<times> cellval) list"

definition get_all_records :: "sheet \<Rightarrow> exn + record_row list" where
  "get_all_records sh =
     (case sh of
        [] \<Rightarrow> Inr []
      | headers # rows \<Rightarrow>
          (if distinct headers then Inr (map (\<lambda>r. zip headers (map numericise r)) rows)
           else Inl (SheetError ''the header row in the sheet is not unique'')))"

text \<open>The marker of a slot that is not offered, compared after \<open>strip().lower()\<close>.\<close>

definition blackout :: string where
  "blackout = ''suday''"

definition is_blackout :: "string \<Rightarrow> bool" where
  "is_blackout v = (lower (strip v) = blackout)"

definition available :: "string \<Rightarrow> string \<Rightarrow> jobj" where
  "available d t = [(''date'', d), (''time'', t), (''status'', ''Available'')]"

text \<open>
  One cell in the inner loop of \<open>get_available_slots\<close>: a missing column reads as
  \<open>None\<close>, which counts as empty, as do the empty text and the number zero; a number
  that is not zero has no \<open>strip\<close>; a blackout cell and an occupied cell add nothing.
\<close>

definition slot_of_cell :: "string \<Rightarrow> string \<Rightarrow> cellval option \<Rightarrow> exn + jobj list" where
  "slot_of_cell d t slot_value =
     (case slot_value of
        None \<Rightarrow> Inr [available d t]
      | Some (CText v) \<Rightarrow>
          (if v = [] then Inr [available d t]
           else if is_blackout v then Inr []
           else Inr [])
      | Some (CInt nonzero) \<Rightarrow>
          (if \<not> nonzero then Inr [available d t]
           else Inl (AttributeError (quoted ''int'' @ '' object has no attribute '' @ quoted ''strip'')))
      | Some (CFloat nonzero) \<Rightarrow>
          (if \<not> nonzero then Inr [available d t]
           else Inl (AttributeError (quoted ''float'' @ '' object has no attribute ''
                                      @ quoted ''strip''))))"

text \<open>The loop over the time columns of one row, and the loop over the rows of the date.\<close>

fun row_slots :: "string \<Rightarrow> record_row \<Rightarrow> string list \<Rightarrow> exn + jobj list" where
  "row_slots d row [] = Inr []"
| "row_slots d row (t # ts) =
     (case slot_of_cell d t (map_of row t) of
        Inl e \<Rightarrow> Inl e
      | Inr here \<Rightarrow>
          (case row_slots d row ts of Inl e \<Rightarrow> Inl e | Inr rest \<Rightarrow> Inr (here @ rest)))"

fun all_slots :: "string \<Rightarrow> record_row list \<Rightarrow> exn + jobj list" where
  "all_slots d [] = Inr []"
| "all_slots d (row # schedule_rows) =
     (case row_slots d row TIME_COLUMNS of
        Inl e \<Rightarrow> Inl e
      | Inr here \<Rightarrow>
          (case all_slots d schedule_rows of Inl e \<Rightarrow> Inl e | Inr rest \<Rightarrow> Inr (here @ rest)))"

definition error_record :: "exn \<Rightarrow> jobj" where
  "error_record e = [(''status'', ''Error''), (''message'', str_exn e)]"

text \<open>
  \<open>get_available_slots(date)\<close>. Without a data row, or without a \<open>Date\<close> column, the frame
  has no \<open>Date\<close> key; every exception ends in the single \<open>Error\<close> record.
\<close>

definition get_available_slots :: "string \<Rightarrow> sheet option \<Rightarrow> jobj list" where
  "get_available_slots d ws =
     (case open_sheet ws of
        Inl e \<Rightarrow> [error_record e]
      | Inr sh \<Rightarrow>
          (case get_all_records sh of
             Inl e \<Rightarrow> [error_record e]
           | Inr data \<Rightarrow>
               (if data = [] \<or> ''Date'' \<notin> set (hd sh)
                then [error_record (KeyError (quoted ''Date''))]
                else
                  (let schedule_rows = filter (\<lambda>row. map_of row ''Date'' = Some (CText d)) data in
                   if schedule_rows = [] then [[(''status'', ''No schedule found for this date.'')]]
                   else
                     (case all_slots d schedule_rows of
                        Inl e \<Rightarrow> [error_record e]
                      | Inr available_slots \<Rightarrow>
                          (if available_slots = []
                           then [[(''status'', ''No available slots found on '' @ d @ ''.'')]]
                           else available_slots))))))"

text \<open>Position of the first element equal to \<open>x\<close>: \<open>list.index\<close>, with \<open>None\<close> for its \<open>ValueError\<close>.\<close>

fun index_of :: "'a \<Rightarrow> 'a list \<Rightarrow> nat option" where
  "index_of x [] = None"
| "index_of x (y # ys) = (if x = y then Some 0 else map_option Suc (index_of x ys))"

text \<open>Index of the first data row whose cell in column \<open>c\<close> is \<open>d\<close>.\<close>

fun first_row :: "nat \<Rightarrow> string \<Rightarrow> string list list \<Rightarrow> nat option" where
  "first_row c d [] = None"
| "first_row c d (r # rs) =
     (if c < length r \<and> r ! c = d then Some 0 else map_option Suc (first_row c d rs))"

text \<open>Reading and writing the cell in column \<open>c\<close> of a row (counted from 0).\<close>

definition cell_of :: "string list \<Rightarrow> nat \<Rightarrow> string" where
  "cell_of r c = (if c < length r then r ! c else [])"

definition put_cell :: "string list \<Rightarrow> nat \<Rightarrow> string \<Rightarrow> string list" where
  "put_cell r c v = (if c < length r then r[c := v] else r @ replicate (c - length r) [] @ [v])"

text \<open>
  \<open>book_slot(date, time, user_id)\<close>: the confirmation record and the worksheet afterwards.
  \<open>i\<close> is the pandas index of the row, \<open>j\<close> the position of the time in the header row;
  the worksheet counts rows and columns from 1 and has the header in row 1.
\<close>

definition book_slot :: "string \<Rightarrow> string \<Rightarrow> string \<Rightarrow> sheet option \<Rightarrow> jobj \<times> sheet option" where
  "book_slot d t user_id ws =
     (case open_sheet ws of
        Inl e \<Rightarrow> (error_record e, ws)
      | Inr sh \<Rightarrow>
          (case sh of
             [] \<Rightarrow> (error_record (IndexError ''list index out of range''), ws)
           | headers # rows \<Rightarrow>
               (case index_of ''Date'' headers of
                  None \<Rightarrow> (error_record (KeyError (quoted ''Date'')), ws)
                | Some dc \<Rightarrow>
                    (case first_row dc d rows of
                       None \<Rightarrow> ([(''status'', ''Error''),
                                  (''message'', ''Date '' @ d @ '' not found.'')], ws)
                     | Some i \<Rightarrow>
                         (case index_of t headers of
                            None \<Rightarrow> ([(''status'', ''Error''),
                                       (''message'', ''Time slot '' @ t @
                                          '' not valid or header not found.'')], ws)
                          | Some j \<Rightarrow>
                              (let current_value = cell_of (rows ! i) j in
                               if current_value \<noteq> []
                                  \<and> lower (strip current_value) \<notin> set [blackout, []]
                               then ([(''status'', ''Error''),
                                      (''message'', ''Slot already booked by '' @ current_value
                                         @ ''.'')], ws)
                               else
                                 ([(''status'', ''Success''),
                                   (''message'', ''Slot booked successfully on '' @ d @ '' at '' @ t
                                      @ '' for '' @ user_id @ ''.''),
                                   (''cell_updated'', ''Row '' @ str_nat (i + 2) @ '', Column ''
                                      @ str_nat (j + 1))],
                                  Some (headers # rows[i := put_cell (rows ! i) j user_id]))))))))"

text \<open>
  The cell of the slot \<open>(date, time)\<close>, found the way \<open>book_slot\<close> finds it: the first row
  whose \<open>Date\<close> cell is the date, the first column headed by the time. \<open>None\<close> when the
  worksheet has no such row or column.
\<close>

definition slot_cell :: "string \<Rightarrow> string \<Rightarrow> sheet option \<Rightarrow> string option" where
  "slot_cell d t ws =
     (case ws of
        Some (headers # rows) \<Rightarrow>
          (case index_of ''Date'' headers of
             Some dc \<Rightarrow>
               (case first_row dc d rows of
                  Some i \<Rightarrow>
                    (case index_of t headers of
                       Some j \<Rightarrow> Some (cell_of (rows ! i) j)
                     | None \<Rightarrow> None)
                | None \<Rightarrow> None)
           | None \<Rightarrow> None)
      | _ \<Rightarrow> None)"

text \<open>
  A worksheet for examples: on 1 December 2026 a blackout cell, occupied cells and one
  empty cell (11:00 AM); on 2 December 2026 no empty cell.
\<close>

definition example_rows :: "string list list" where
  "example_rows =
     [[''2026-12-01'', ''suday'', ''Bob-1'', [], ''Ann-7'', ''Ann-7'', ''Ann-7'', ''Ann-7'',
       ''Ann-7''],
      [''2026-12-02'', ''suday'', ''suday'', ''Bob-1'', ''Bob-1'', ''Ann-7'', ''Ann-7'', ''Ann-7'',
       ''SUDAY '']]"

definition example_sheet :: "sheet option" where
  "example_sheet = Some ((''Date'' # TIME_COLUMNS) # example_rows)"

section \<open>The appointment routes (appointment\_routes.py)\<close>

datatype json = JArr "jobj list" | JObj jobj

record response =
  status_code :: nat
  body :: json

text \<open>
  The text of a response body. The routes answer with \<open>jsonify\<close>; its spacing, key order
  and escaping are not reproduced, only that the text is the rendered body.
\<close>

definition render_obj :: "jobj \<Rightarrow> string" where
  "render_obj obj =
     ''{'' @ join '', '' (map (\<lambda>(k, v). [CHR 0x22] @ k @ [CHR 0x22] @ '': '' @
                                        [CHR 0x22] @ v @ [CHR 0x22]) obj) @ ''}''"

definition response_text :: "response \<Rightarrow> string" where
  "response_text r =
     (case body r of
        JObj obj \<Rightarrow> render_obj obj
      | JArr objs \<Rightarrow> ''['' @ join '', '' (map render_obj objs) @ '']'')"

text \<open>\<open>GET /api/appointments/slots?date=...\<close>\<close>

definition handle_get :: "pyval \<Rightarrow> sheet option \<Rightarrow> response" where
  "handle_get date_arg ws =
     (case date_arg of
        PStr d \<Rightarrow>
          (if d = [] then
             \<lparr>status_code = 400,
              body = JObj [(''error'', ''Missing '' @ quoted ''date'' @ '' query parameter.'')]\<rparr>
           else \<lparr>status_code = 200, body = JArr (get_available_slots d ws)\<rparr>)
      | PNone \<Rightarrow>
          \<lparr>status_code = 400,
           body = JObj [(''error'', ''Missing '' @ quoted ''date'' @ '' query parameter.'')]\<rparr>)"

text \<open>\<open>POST /api/appointments/slots\<close> with the body \<open>{date, time, user_id}\<close>.\<close>

definition handle_post :: "pyval \<Rightarrow> pyval \<Rightarrow> pyval \<Rightarrow> sheet option \<Rightarrow> response \<times> sheet option" where
  "handle_post date_arg time_arg user_arg ws =
     (case (date_arg, time_arg, user_arg) of
        (PStr d, PStr t, PStr u) \<Rightarrow>
          (if d = [] \<or> t = [] \<or> u = [] then
             (\<lparr>status_code = 400,
               body = JObj [(''error'', ''Missing required fields in body. Need '' @ quoted ''date''
                               @ '', '' @ quoted ''time'' @ '', and '' @ quoted ''user_id'' @ ''.'')]\<rparr>,
              ws)
           else
             (case book_slot d t u ws of
                (result, ws') \<Rightarrow>
                  (if map_of result ''status'' = Some ''Error'' then
                     (\<lparr>status_code =
                          (if str_in ''already booked''
                                (lower (case map_of result ''message'' of Some m \<Rightarrow> m | None \<Rightarrow> []))
                           then 409 else 500),
                        body = JObj result\<rparr>, ws')
                   else (\<lparr>status_code = 201, body = JObj result\<rparr>, ws'))))
      | _ \<Rightarrow>
          (\<lparr>status_code = 400,
            body = JObj [(''error'', ''Missing required fields in body. Need '' @ quoted ''date''
                            @ '', '' @ quoted ''time'' @ '', and '' @ quoted ''user_id'' @ ''.'')]\<rparr>,
           ws))"

section \<open>The tool executor (booking\_tools.py)\<close>

text \<open>
  The world outside the executor: the worksheet, the base addresses at which the
  appointment routes answer (a request to any other address fails to connect) and the
  requests sent so far, oldest first.
\<close>

datatype request = Get string pyval | Post string pyval pyval pyval

record world =
  worksheet :: "sheet option"
  listening :: "string list"
  sent :: "request list"

definition requests_get :: "string \<Rightarrow> pyval \<Rightarrow> world \<Rightarrow> (exn + response) \<times> world" where
  "requests_get base date_arg w =
     (let w' = w\<lparr>sent := sent w @ [Get base date_arg]\<rparr> in
      if base \<in> set (listening w) then (Inr (handle_get date_arg (worksheet w)), w')
      else (Inl (RequestException (''connection to '' @ base @ '' failed'')), w'))"

definition requests_post ::
    "string \<Rightarrow> pyval \<Rightarrow> pyval \<Rightarrow> pyval \<Rightarrow> world \<Rightarrow> (exn + response) \<times> world" where
  "requests_post base date_arg time_arg user_arg w =
     (let w' = w\<lparr>sent := sent w @ [Post base date_arg time_arg user_arg]\<rparr> in
      if base \<in> set (listening w) then
        (case handle_post date_arg time_arg user_arg (worksheet w) of
           (r, ws') \<Rightarrow> (Inr r, w'\<lparr>worksheet := ws'\<rparr>))
      else (Inl (RequestException (''connection to '' @ base @ '' failed'')), w'))"

record tool_result =
  status :: string
  message :: string
  available_slots :: "string list option"
  booking_details :: "jobj option"

text \<open>
  The marks that open the executor's messages (U+274C and U+2705) lie outside the range
  of \<open>char\<close>; they are kept as their three UTF-8 bytes. They occur only in messages
  that the executor builds.
\<close>

definition cross_mark :: string where
  "cross_mark = [CHR 0xE2, CHR 0x9D, CHR 0x8C]"

definition check_mark :: string where
  "check_mark = [CHR 0xE2, CHR 0x9C, CHR 0x85]"

text \<open>An argument inside an f-string.\<close>

fun py_str :: "pyval \<Rightarrow> string" where
  "py_str PNone = ''None''"
| "py_str (PStr s) = s"

text \<open>\<open>x or default\<close> on an optional text.\<close>

definition or_else :: "string option \<Rightarrow> string \<Rightarrow> string" where
  "or_else x dflt = (case x of Some s \<Rightarrow> (if s = [] then dflt else s) | None \<Rightarrow> dflt)"

text \<open>
  The body of a 200 answer in \<open>get_available_slots\<close>: the times of the records whose
  status is \<open>Available\<close>. Iterating a JSON object yields its keys, which have no \<open>get\<close>.
\<close>

definition slots_of_body :: "pyval \<Rightarrow> json \<Rightarrow> exn + tool_result" where
  "slots_of_body date_arg b =
     (case b of
        JArr slots_data \<Rightarrow>
          (let found = map (\<lambda>slot. map_of slot ''time'')
                           (filter (\<lambda>slot. map_of slot ''status'' = Some ''Available'') slots_data)
           in if found = [] then
                Inr \<lparr>status = ''no_slots'',
                     message = ''No available slots found for '' @ py_str date_arg,
                     available_slots = Some [], booking_details = None\<rparr>
              else if None \<in> set found then
                Inl (TypeError ''sequence item: expected str instance, NoneType found'')
              else
                Inr \<lparr>status = ''success'',
                     message = ''Available slots on '' @ py_str date_arg @ '': ''
                                 @ join '', '' (map the found),
                     available_slots = Some (map the found), booking_details = None\<rparr>)
      | JObj obj \<Rightarrow>
          (if obj = [] then
             Inr \<lparr>status = ''no_slots'',
                  message = ''No available slots found for '' @ py_str date_arg,
                  available_slots = Some [], booking_details = None\<rparr>
           else Inl (AttributeError (quoted ''str'' @ '' object has no attribute '' @ quoted ''get''))))"

text \<open>The loop of \<open>get_available_slots\<close> over the base addresses.\<close>

fun get_slots_loop ::
    "string list \<Rightarrow> pyval \<Rightarrow> string option \<Rightarrow> world \<Rightarrow> (exn + tool_result) \<times> world" where
  "get_slots_loop [] date_arg last_err w =
     (Inr \<lparr>status = ''error'',
           message = ''Failed to get slots: '' @ or_else last_err ''Unknown error'',
           available_slots = Some [], booking_details = None\<rparr>, w)"
| "get_slots_loop (base # bases) date_arg last_err w =
     (case requests_get base date_arg w of
        (Inl e, w') \<Rightarrow> get_slots_loop bases date_arg (Some (str_exn e)) w'
      | (Inr r, w') \<Rightarrow>
          (if status_code r = 200 then (slots_of_body date_arg (body r), w')
           else get_slots_loop bases date_arg (Some (response_text r)) w'))"

definition executor_get_available_slots ::
    "string list \<Rightarrow> pyval \<Rightarrow> world \<Rightarrow> tool_result \<times> world" where
  "executor_get_available_slots api_base_urls date_arg w =
     (case get_slots_loop api_base_urls date_arg None w of
        (Inr result, w') \<Rightarrow> (result, w')
      | (Inl e, w') \<Rightarrow>
          (\<lparr>status = ''error'', message = ''Unexpected error: '' @ str_exn e,
            available_slots = Some [], booking_details = None\<rparr>, w'))"

text \<open>The loop of \<open>book_appointment_slot\<close> over the base addresses.\<close>

fun book_loop ::
    "string list \<Rightarrow> pyval \<Rightarrow> pyval \<Rightarrow> pyval \<Rightarrow> string option \<Rightarrow> world
     \<Rightarrow> (exn + tool_result) \<times> world" where
  "book_loop [] date_arg time_arg user_arg last_err w =
     (Inr \<lparr>status = ''error'',
           message = cross_mark @ '' Booking failed: '' @ or_else last_err ''Unknown error'',
           available_slots = None, booking_details = None\<rparr>, w)"
| "book_loop (base # bases) date_arg time_arg user_arg last_err w =
     (case requests_post base date_arg time_arg user_arg w of
        (Inl e, w') \<Rightarrow> book_loop bases date_arg time_arg user_arg (Some (str_exn e)) w'
      | (Inr r, w') \<Rightarrow>
          (case (if response_text r \<noteq> [] then body r else JObj []) of
             JArr objs \<Rightarrow>
               (Inl (AttributeError (quoted ''list'' @ '' object has no attribute '' @ quoted ''get'')),
                w')
           | JObj booking_data \<Rightarrow>
               (if status_code r \<in> set [200, 201]
                   \<or> lower (or_else (map_of booking_data ''status'') [])
                        \<in> set [''success'', ''ok'', ''booked'']
                then
                  (Inr \<lparr>status = ''success'',
                        message = or_else (map_of booking_data ''message'')
                                    (check_mark @ '' Appointment confirmed for '' @ py_str time_arg
                                       @ '' on '' @ py_str date_arg),
                        available_slots = None, booking_details = Some booking_data\<rparr>, w')
                else if status_code r = 409 then
                  (Inr \<lparr>status = ''already_booked'',
                        message = cross_mark @ '' Sorry, the '' @ py_str time_arg @ '' slot on ''
                                    @ py_str date_arg @ '' is already booked'',
                        available_slots = None, booking_details = None\<rparr>, w')
                else
                  book_loop bases date_arg time_arg user_arg
                    (Some (or_else (map_of booking_data ''error'') (response_text r))) w')))"

definition executor_book_appointment_slot ::
    "string list \<Rightarrow> pyval \<Rightarrow> pyval \<Rightarrow> pyval \<Rightarrow> world \<Rightarrow> tool_result \<times> world" where
  "executor_book_appointment_slot api_base_urls date_arg time_arg user_arg w =
     (case book_loop api_base_urls date_arg time_arg user_arg None w of
        (Inr result, w') \<Rightarrow> (result, w')
      | (Inl e, w') \<Rightarrow>
          (\<lparr>status = ''error'', message = cross_mark @ '' Unexpected error: '' @ str_exn e,
            available_slots = None, booking_details = None\<rparr>, w'))"

text \<open>
  Keyword arguments are an association list with distinct keys; \<open>kwargs.get(k)\<close> is \<open>None\<close>
  for a missing key.
\<close>

type_synonym kwargs = "(string \<times> pyval) list"

definition kw_get :: "kwargs \<Rightarrow> string \<Rightarrow> pyval" where
  "kw_get kw k = (case map_of kw k of Some v \<Rightarrow> v | None \<Rightarrow> PNone)"

text \<open>
  What \<open>getattr(self, function_name)\<close> finds on the executor: one of its two tools, its
  own \<open>safe_execute\<close>, its list of addresses, nothing (\<open>AttributeError\<close>), or, for a name
  of the form \<open>__x__\<close>, possibly an attribute that every object has.
\<close>

datatype attribute = GetAvailableSlots | BookAppointmentSlot | SafeExecute | ApiBaseUrls
  | Special | Missing

definition getattr_executor :: "string \<Rightarrow> attribute" where
  "getattr_executor name =
     (if name = ''get_available_slots'' then GetAvailableSlots
      else if name = ''book_appointment_slot'' then BookAppointmentSlot
      else if name = ''safe_execute'' then SafeExecute
      else if name = ''api_base_urls'' then ApiBaseUrls
      else if starts_with name ''__'' \<and> starts_with (rev name) ''__'' then Special
      else Missing)"

definition execution_error :: "exn \<Rightarrow> tool_result" where
  "execution_error e =
     \<lparr>status = ''execution_error'',
      message = cross_mark @ '' Function execution failed: '' @ str_exn e,
      available_slots = None, booking_details = None\<rparr>"

definition validation_error :: "string \<Rightarrow> tool_result" where
  "validation_error m =
     \<lparr>status = ''validation_error'', message = m,
      available_slots = None, booking_details = None\<rparr>"

text \<open>
  \<open>getattr(self, function_name)(**kwargs)\<close>. A tool is called when the keywords are
  exactly its parameters; any other set of keywords is a \<open>TypeError\<close> (whose wording is
  not reproduced). The result is \<open>None\<close> where the call goes to an attribute of every
  object, whose return value is not a status record.
\<close>

definition dispatch ::
    "string list \<Rightarrow> string \<Rightarrow> kwargs \<Rightarrow> world \<Rightarrow> (exn + tool_result option) \<times> world" where
  "dispatch api_base_urls function_name kw w =
     (case getattr_executor function_name of
        GetAvailableSlots \<Rightarrow>
          (if set (map fst kw) = set [''date''] then
             (case executor_get_available_slots api_base_urls (kw_get kw ''date'') w of
                (r, w') \<Rightarrow> (Inr (Some r), w'))
           else (Inl (TypeError ''get_available_slots() got unexpected or missing arguments''), w))
      | BookAppointmentSlot \<Rightarrow>
          (if set (map fst kw) = set [''date'', ''time'', ''user_id''] then
             (case executor_book_appointment_slot api_base_urls (kw_get kw ''date'')
                     (kw_get kw ''time'') (kw_get kw ''user_id'') w of
                (r, w') \<Rightarrow> (Inr (Some r), w'))
           else (Inl (TypeError ''book_appointment_slot() got unexpected or missing arguments''), w))
      | SafeExecute \<Rightarrow>
          (Inl (TypeError (''safe_execute() missing 1 required positional argument: ''
                            @ quoted ''function_name'')), w)
      | ApiBaseUrls \<Rightarrow> (Inl (TypeError (quoted ''list'' @ '' object is not callable'')), w)
      | Special \<Rightarrow> (Inr None, w)
      | Missing \<Rightarrow>
          (Inl (AttributeError (quoted ''BookingToolExecutor'' @ '' object has no attribute ''
                                 @ quoted function_name)), w))"

text \<open>
  \<open>safe_execute(function_name, **kwargs)\<close>, with \<open>today\<close> the reading of the clock. An
  exception of the validation or of the call is answered with \<open>execution_error\<close>.
\<close>

definition safe_execute ::
    "date \<Rightarrow> string list \<Rightarrow> string \<Rightarrow> kwargs \<Rightarrow> world \<Rightarrow> tool_result option \<times> world" where
  "safe_execute today api_base_urls function_name kw w =
     (let run = (case dispatch api_base_urls function_name kw w of
                   (Inl e, w') \<Rightarrow> (Some (execution_error e), w')
                 | (Inr r, w') \<Rightarrow> (r, w'))
      in
      if function_name = ''get_available_slots'' then
        (case validate_booking_params today (kw_get kw ''date'') PNone of
           Inl e \<Rightarrow> (Some (execution_error e), w)
         | Inr validation \<Rightarrow>
             (if \<not> valid validation then
                (Some (validation_error (cross_mark @ '' Validation failed: ''
                                          @ join ''; '' (errors validation))), w)
              else run))
      else if function_name = ''book_appointment_slot'' then
        (case validate_booking_params today (kw_get kw ''date'') (kw_get kw ''time'') of
           Inl e \<Rightarrow> (Some (execution_error e), w)
         | Inr validation \<Rightarrow>
             (if \<not> valid validation then
                (Some (validation_error (cross_mark @ '' Validation failed: ''
                                          @ join ''; '' (errors validation))), w)
              else if \<not> truthy (kw_get kw ''user_id'') \<or> length (py_str (kw_get kw ''user_id'')) < 3
              then (Some (validation_error
                            (cross_mark @ '' User ID must be at least 3 characters long'')), w)
              else run))
      else run)"

text \<open>
  A world for examples: the routes answer at the local address only, and the executor is
  configured with one more address before its two local ones.
\<close>

definition example_world :: world where
  "example_world =
     \<lparr>worksheet = example_sheet, listening = [''http://127.0.0.1:5200''], sent = []\<rparr>"

definition example_urls :: "string list" where
  "example_urls = [''http://scheduler.example'', ''http://127.0.0.1:5200'', ''http://localhost:5200'']"

definition example_today :: date where
  "example_today = Date 2026 11 4"

section \<open>Tool calls of the orchestrator (rag\_core.py, \<open>execute_tool_call\<close>)\<close>

text \<open>
  \<open>normalize_date\<close>: only the whole argument \<open>today\<close> or \<open>tomorrow\<close>, after
  \<open>strip().lower()\<close>, is replaced.
\<close>

definition normalize_date :: "date \<Rightarrow> pyval \<Rightarrow> pyval" where
  "normalize_date today value =
     (case value of
        PStr s \<Rightarrow>
          (let v = lower (strip s) in
           if v = ''today'' then PStr (isoformat today)
           else if v = ''tomorrow'' then PStr (isoformat (next_day today))
           else value)
      | PNone \<Rightarrow> value)"

text \<open>
  A function call of the model: its name and its arguments, which may be missing as a
  whole. The part of \<open>RagBot\<close> that tool calls read and write is the executor's list of base
  addresses and \<open>last_slots_date\<close>.
\<close>

record function_call =
  fc_name :: string
  fc_args :: "kwargs option"

record ragbot =
  booking_executor :: "string list"
  last_slots_date :: pyval

text \<open>\<open>a or b\<close> on arguments.\<close>

definition py_or :: "pyval \<Rightarrow> pyval \<Rightarrow> pyval" where
  "py_or a b = (if truthy a then a else b)"

text \<open>
  \<open>execute_tool_call(function_call)\<close>: the result, the bot and the world afterwards.
  \<open>function_args.get\<close> on missing arguments raises, and nothing here catches it.
\<close>

definition execute_tool_call ::
    "date \<Rightarrow> ragbot \<Rightarrow> function_call \<Rightarrow> world \<Rightarrow> exn + (tool_result option \<times> ragbot \<times> world)" where
  "execute_tool_call today self call w =
     (if fc_name call = ''get_available_slots'' then
        (case fc_args call of
           None \<Rightarrow> Inl (AttributeError (quoted ''NoneType'' @ '' object has no attribute '' @ quoted ''get''))
         | Some function_args \<Rightarrow>
             (case safe_execute today (booking_executor self) ''get_available_slots''
                     [(''date'', normalize_date today (kw_get function_args ''date''))] w of
                (result, w') \<Rightarrow>
                  (let d = normalize_date today (kw_get function_args ''date'') in
                   Inr (result, (if truthy d then self\<lparr>last_slots_date := d\<rparr> else self), w'))))
      else if fc_name call = ''book_appointment_slot'' then
        (case fc_args call of
           None \<Rightarrow> Inl (AttributeError (quoted ''NoneType'' @ '' object has no attribute '' @ quoted ''get''))
         | Some function_args \<Rightarrow>
             (let inferred_date = py_or (kw_get function_args ''date'') (last_slots_date self) in
              case safe_execute today (booking_executor self) ''book_appointment_slot''
                     [(''date'', normalize_date today inferred_date),
                      (''time'', normalize_time (kw_get function_args ''time'')),
                      (''user_id'', kw_get function_args ''user_id'')] w of
                (result, w') \<Rightarrow> Inr (result, self, w')))
      else
        Inr (Some \<lparr>status = ''error'', message = ''Unknown function: '' @ fc_name call,
                    available_slots = None, booking_details = None\<rparr>, self, w))"

text \<open>A bot for examples: no slot lookup has been made yet.\<close>

definition example_bot :: ragbot where
  "example_bot = \<lparr>booking_executor = example_urls, last_slots_date = PNone\<rparr>"

section \<open>Pattern searches\<close>

text \<open>
  The patterns of the code are matched by hand-written matchers. A matcher is tried at
  one position: it sees the character before the position (\<open>None\<close> at the start of the
  text) and the text from the position on. \<open>\b\<close> holds where exactly one of the two
  sides is a word character.
\<close>

definition word_before :: "char option \<Rightarrow> bool" where
  "word_before p = (case p of None \<Rightarrow> False | Some c \<Rightarrow> is_word c)"

definition word_at :: "string \<Rightarrow> bool" where
  "word_at s = (case s of [] \<Rightarrow> False | c # cs \<Rightarrow> is_word c)"

definition word_boundary :: "char option \<Rightarrow> string \<Rightarrow> bool" where
  "word_boundary p s = (word_before p \<noteq> word_at s)"

text \<open>\<open>re.search\<close>: the result of the matcher at the leftmost position where it succeeds.\<close>

fun re_search :: "(char option \<Rightarrow> string \<Rightarrow> 'a option) \<Rightarrow> char option \<Rightarrow> string \<Rightarrow> 'a option" where
  "re_search m p [] = m p []"
| "re_search m p (c # cs) =
     (case m p (c # cs) of Some r \<Rightarrow> Some r | None \<Rightarrow> re_search m (Some c) cs)"

text \<open>\<open>\b\d{4}-\d{2}-\d{2}\b\<close> at one position: the matched text.\<close>

definition iso_date_at :: "char option \<Rightarrow> string \<Rightarrow> string option" where
  "iso_date_at p s =
     (if word_boundary p s then
        (case eat iso_template s of
           Some r \<Rightarrow> (if word_boundary (Some (last (take 10 s))) r then Some (take 10 s) else None)
         | None \<Rightarrow> None)
      else None)"

text \<open>A literal matched without regard to case (the literal is given in lower case).\<close>

fun eat_ci :: "string \<Rightarrow> string \<Rightarrow> string option" where
  "eat_ci [] s = Some s"
| "eat_ci (t # ts) [] = None"
| "eat_ci (t # ts) (c # cs) = (if lower_char c = t then eat_ci ts cs else None)"


section \<open>Relative dates in a message (app.py and ws\_server.py, \<open>normalize_relative_dates\<close>)\<close>






section \<open>Intent router (app.py \<open>chat_with_rag\<close>, ws\_server.py \<open>ws_handler\<close>)\<close>

text \<open>
  A turn of the conversation; a key that is missing reads as the empty text, as
  \<open>msg.get(key, '')\<close> does.
\<close>

record turn =
  role :: string
  turn_text :: string














section \<open>Direct extraction from the message (rag\_core.py, \<open>generate_response_with_tools\<close>)\<close>

text \<open>\<open>_extract_date\<close>: the first ISO date of the text, else today or tomorrow when named.\<close>

definition extract_date :: "date \<Rightarrow> string \<Rightarrow> string option" where
  "extract_date today txt =
     (case re_search iso_date_at None txt of
        Some found \<Rightarrow> Some found
      | None \<Rightarrow>
          (let low = lower txt in
           if str_in ''today'' low then Some (isoformat today)
           else if str_in ''tomorrow'' low then Some (isoformat (next_day today))
           else None))"

text \<open>One of \<open>AM\<close>, \<open>PM\<close>, \<open>am\<close>, \<open>pm\<close> at the front, followed by \<open>\b\<close>: the matched letters.\<close>

definition ampm_exact :: "string \<Rightarrow> string option" where
  "ampm_exact s =
     (if take 2 s \<in> set [''AM'', ''PM'', ''am'', ''pm'']
         \<and> word_boundary (Some (last (take 2 s))) (drop 2 s)
      then Some (take 2 s) else None)"

text \<open>The same under \<open>re.IGNORECASE\<close>, for \<open>(pm|am)\<close>.\<close>

definition ampm_any_case :: "string \<Rightarrow> string option" where
  "ampm_any_case s =
     (if lower (take 2 s) \<in> set [''pm'', ''am'']
         \<and> word_boundary (Some (last (take 2 s))) (drop 2 s)
      then Some (take 2 s) else None)"

text \<open>The first of the alternatives, in the order of the pattern, whose rest matches.\<close>

fun first_alternative ::
    "(string \<Rightarrow> string option) \<Rightarrow> (string \<times> string) list \<Rightarrow> (string \<times> string) option" where
  "first_alternative rest_match [] = None"
| "first_alternative rest_match ((g, r) # alts) =
     (case rest_match r of
        Some t \<Rightarrow> Some (g, t)
      | None \<Rightarrow> first_alternative rest_match alts)"

text \<open>\<open>\b(0?[1-9]|1[0-6]):00\s*(AM|PM|am|pm)\b\<close> at one position: the two groups.\<close>

definition clock_time_at :: "char option \<Rightarrow> string \<Rightarrow> (string \<times> string) option" where
  "clock_time_at p s =
     (if word_boundary p s then
        first_alternative
          (\<lambda>r. if take 3 r = '':00'' then ampm_exact (dropWhile is_space (drop 3 r)) else None)
          (hour_alternatives s)
      else None)"

text \<open>\<open>\b(09|10|11|12|13|14|15|16):00\b\<close> at one position: the group.\<close>

definition hour24_at :: "char option \<Rightarrow> string \<Rightarrow> string option" where
  "hour24_at p s =
     (if word_boundary p s
         \<and> take 2 s \<in> set [''09'', ''10'', ''11'', ''12'', ''13'', ''14'', ''15'', ''16'']
         \<and> take 3 (drop 2 s) = '':00''
         \<and> word_boundary (Some CHR ''0'') (drop 5 s)
      then Some (take 2 s) else None)"

text \<open>The alternatives of \<open>(9|10|11|12|1|2|3|4)\<close> that match at the front, in that order.\<close>

definition plain_hour_alternatives :: "string \<Rightarrow> (string \<times> string) list" where
  "plain_hour_alternatives s =
     map (\<lambda>h. (h, drop (length h) s))
         (filter (starts_with s) [''9'', ''10'', ''11'', ''12'', ''1'', ''2'', ''3'', ''4''])"

text \<open>\<open>\b(9|10|11|12|1|2|3|4)\s*(?:o'clock)?\s*(AM|PM|am|pm)\b\<close> at one position.\<close>

definition oclock_time_at :: "char option \<Rightarrow> string \<Rightarrow> (string \<times> string) option" where
  "oclock_time_at p s =
     (if word_boundary p s then
        first_alternative
          (\<lambda>r. let r1 = dropWhile is_space r in
                if starts_with r1 (''o'' @ [CHR 0x27] @ ''clock'') then
                  (case ampm_exact (dropWhile is_space (drop 7 r1)) of
                     Some t \<Rightarrow> Some t
                   | None \<Rightarrow> ampm_exact r1)
                else ampm_exact r1)
          (plain_hour_alternatives s)
      else None)"

text \<open>\<open>\b(9|10|11|12|1|2|3|4)\s*(pm|am)\b\<close> under \<open>re.IGNORECASE\<close> at one position.\<close>

definition short_time_at :: "char option \<Rightarrow> string \<Rightarrow> (string \<times> string) option" where
  "short_time_at p s =
     (if word_boundary p s then
        first_alternative (\<lambda>r. ampm_any_case (dropWhile is_space r)) (plain_hour_alternatives s)
      else None)"

definition hour24_mapping :: "(string \<times> string) list" where
  "hour24_mapping =
     [(''09'', ''9:00 AM''), (''10'', ''10:00 AM''), (''11'', ''11:00 AM''), (''12'', ''12:00 PM''),
      (''13'', ''1:00 PM''), (''14'', ''2:00 PM''), (''15'', ''3:00 PM''), (''16'', ''4:00 PM'')]"

text \<open>\<open>f"{int(m.group(1))}:00 {m.group(2).upper()}"\<close>\<close>

definition clock_label :: "string \<times> string \<Rightarrow> string" where
  "clock_label m = str_nat (number_of (fst m)) @ '':00 '' @ upper (snd m)"

text \<open>\<open>_extract_time\<close>: the four patterns are searched in turn.\<close>

definition extract_time :: "string \<Rightarrow> string option" where
  "extract_time txt =
     (case re_search clock_time_at None txt of
        Some m \<Rightarrow> Some (clock_label m)
      | None \<Rightarrow>
          (case re_search hour24_at None txt of
             Some h \<Rightarrow> map_of hour24_mapping h
           | None \<Rightarrow>
               (case re_search oclock_time_at None txt of
                  Some m \<Rightarrow> Some (clock_label m)
                | None \<Rightarrow>
                    (case re_search short_time_at None txt of
                       Some m \<Rightarrow> Some (clock_label m)
                     | None \<Rightarrow> None))))"

text \<open>The class \<open>[A-Za-z0-9\-]\<close>.\<close>

definition is_id_char :: "char \<Rightarrow> bool" where
  "is_id_char c = (is_alnum c \<or> c = CHR ''-'')"

text \<open>
  \<open>user\s*id\s*[:\-]?\s*([A-Za-z0-9\-]+)\<close> under \<open>re.IGNORECASE\<close> at one position: the
  group. The optional separator is taken when the group can follow it, else left to
  the group.
\<close>

definition labelled_id_at :: "char option \<Rightarrow> string \<Rightarrow> string option" where
  "labelled_id_at p s =
     (case eat_ci ''user'' s of
        None \<Rightarrow> None
      | Some r1 \<Rightarrow>
          (case eat_ci ''id'' (dropWhile is_space r1) of
             None \<Rightarrow> None
           | Some r2 \<Rightarrow>
               (let r = dropWhile is_space r2;
                    after_separator = takeWhile is_id_char (dropWhile is_space (drop 1 r));
                    without_separator = takeWhile is_id_char r
                in if take 1 r \<in> set ['':'', ''-''] \<and> after_separator \<noteq> []
                   then Some after_separator
                   else if without_separator \<noteq> [] then Some without_separator
                   else None)))"

text \<open>\<open>s.split('-')\<close>\<close>

fun split_hyphen :: "string \<Rightarrow> string list" where
  "split_hyphen [] = [[]]"
| "split_hyphen (c # cs) =
     (if c = CHR ''-'' then [] # split_hyphen cs
      else (case split_hyphen cs of x # xs \<Rightarrow> (c # x) # xs | [] \<Rightarrow> [[c]]))"

text \<open>
  \<open>\b[A-Za-z0-9]+(?:\-[A-Za-z0-9]+)+\b\<close> at one position: the matched text. The match
  lies in the run of letters, digits and hyphens at the position and takes its segments
  up to the first empty one; when a word character follows the last segment, that
  segment is given back. At least two segments must remain.
\<close>

definition hyphenated_id_at :: "char option \<Rightarrow> string \<Rightarrow> string option" where
  "hyphenated_id_at p s =
     (if word_boundary p s then
        (let run = takeWhile is_id_char s;
             segments = split_hyphen run;
             taken = takeWhile (\<lambda>seg. seg \<noteq> []) segments;
             whole = (length taken = length segments);
             kept = (if whole \<and> word_at (drop (length run) s) then butlast taken else taken)
         in if 2 \<le> length kept then Some (join ''-'' kept) else None)
      else None)"

text \<open>\<open>_extract_user_id\<close>\<close>

definition extract_user_id :: "string \<Rightarrow> string option" where
  "extract_user_id txt =
     (case re_search labelled_id_at None txt of
        Some g \<Rightarrow> Some g
      | None \<Rightarrow> re_search hyphenated_id_at None txt)"

section \<open>The two-phase tool protocol (rag\_core.py, \<open>generate_response_with_tools\<close>)\<close>

text \<open>
  A part of a model response, as the code probes it: \<open>function_call_attr\<close> is \<open>None\<close> when
  the part has no attribute \<open>function_call\<close> (\<open>hasattr\<close> is false), \<open>Some None\<close> when the
  attribute is there and holds \<open>None\<close>, and \<open>Some (Some call)\<close> when it holds a call. A
  candidate either has no content or has the parts of its content.
\<close>

record part =
  part_text :: "string option"
  function_call_attr :: "function_call option option"

datatype candidate = NoContent | Content "part list"

record gen_response =
  candidates :: "candidate list"
  response_text :: "string option"

text \<open>The entries of the conversation sent to the generation service.\<close>

datatype content =
    TextContent string string
  | CallContent function_call
  | FunctionResponse string "tool_result option"

text \<open>
  The generation service: from the contents, the system instruction and whether the
  tool schemas are attached, a response or an exception.
\<close>

type_synonym generation_service = "content list \<Rightarrow> string \<Rightarrow> bool \<Rightarrow> exn + gen_response"

record chat_result =
  res_response :: string
  res_tool_used :: "string option"
  res_tool_result :: "tool_result option"
  res_mode :: string
  res_error :: "string option"

definition newline :: string where
  "newline = [CHR 0x0A]"

definition enhanced_system_prompt :: "string \<Rightarrow> pyval \<Rightarrow> string" where
  "enhanced_system_prompt system_prompt user_id =
     newline @ system_prompt @ newline @ newline
     @ ''You have access to appointment booking functions. When users want to book appointments:''
     @ newline @ ''1. First get available slots for the requested date''
     @ newline @ ''2. Present the available options to the user''
     @ newline @ ''3. When they confirm a slot, book it for them''
     @ newline @ ''4. Always be conversational and helpful''
     @ newline @ newline @ ''Current user ID: '' @ py_str (py_or user_id (PStr ''guest''))
     @ newline"

text \<open>The history of the chat as contents: a turn without text is left out.\<close>

definition gemini_history :: "turn list \<Rightarrow> string \<Rightarrow> content list" where
  "gemini_history chat_history user_message =
     map (\<lambda>msg. TextContent (if role msg = ''user'' then ''user'' else ''model'') (turn_text msg))
         (filter (\<lambda>msg. turn_text msg \<noteq> []) chat_history)
     @ [TextContent ''user'' user_message]"

text \<open>The first part that has the attribute \<open>function_call\<close>, with what the attribute holds.\<close>

fun first_function_call :: "part list \<Rightarrow> function_call option option" where
  "first_function_call [] = None"
| "first_function_call (p # ps) =
     (case function_call_attr p of Some held \<Rightarrow> Some held | None \<Rightarrow> first_function_call ps)"

text \<open>
  The direct booking attempted before the generation service is asked: \<open>None\<close> when the
  message does not name a date, a time and a user.
\<close>

definition direct_booking ::
    "date \<Rightarrow> ragbot \<Rightarrow> string \<Rightarrow> pyval \<Rightarrow> world \<Rightarrow> (tool_result option \<times> world) option" where
  "direct_booking today self user_message user_id w =
     (case (extract_date today user_message, extract_time user_message) of
        (Some date_candidate, Some time_candidate) \<Rightarrow>
          (if date_candidate \<noteq> [] \<and> time_candidate \<noteq> []
              \<and> (or_else (extract_user_id user_message) [] \<noteq> [] \<or> truthy user_id)
           then Some (safe_execute today (booking_executor self) ''book_appointment_slot''
                        [(''date'', PStr date_candidate), (''time'', PStr time_candidate),
                         (''user_id'',
                          py_or (PStr (or_else (extract_user_id user_message) []))
                                (py_or user_id (PStr ''guest'')))] w)
           else None)
      | _ \<Rightarrow> None)"

definition error_result :: "exn \<Rightarrow> chat_result" where
  "error_result e =
     \<lparr>res_response = ''I apologize, but I encountered an error processing your request. ''
                      @ ''Please try again.'',
      res_tool_used = None, res_tool_result = None, res_mode = ''error'',
      res_error = Some (str_exn e)\<rparr>"

text \<open>
  The regular answer, when no part has a function call: the text of the response, else
  the text of the first part of the first candidate, else a fixed sentence.
\<close>

definition regular_text :: "gen_response \<Rightarrow> string" where
  "regular_text r =
     (let first_text = (case candidates r of
                          Content (p # ps) # cs \<Rightarrow> or_else (part_text p) []
                        | _ \<Rightarrow> []);
          model_text = or_else (response_text r) first_text
      in if model_text = [] then ''I'' @ [CHR 0x27] @ ''m sorry, I couldn'' @ [CHR 0x27]
                                   @ ''t generate a response.''
         else model_text)"

text \<open>
  The protocol after the direct attempt: the first call with the tool schemas; when a
  part has a function call, the tool is run, call and result are appended to the
  contents, and the service is asked again without the schemas; the reply is the message
  of the tool result. Every exception ends in the apology; what the tool did to the bot
  and to the world stays.
\<close>

definition tool_protocol ::
    "generation_service \<Rightarrow> date \<Rightarrow> ragbot \<Rightarrow> string \<Rightarrow> string \<Rightarrow> turn list \<Rightarrow> pyval \<Rightarrow> world
     \<Rightarrow> chat_result \<times> ragbot \<times> world" where
  "tool_protocol client today self user_message system_prompt chat_history user_id w =
     (let history = gemini_history chat_history user_message;
          prompt = enhanced_system_prompt system_prompt user_id
      in case client history prompt True of
           Inl e \<Rightarrow> (error_result e, self, w)
         | Inr r \<Rightarrow>
             (case candidates r of
                NoContent # cs \<Rightarrow>
                  (error_result (AttributeError (quoted ''NoneType'' @ '' object has no attribute ''
                                                  @ quoted ''parts'')), self, w)
              | Content parts # cs \<Rightarrow>
                  (case first_function_call parts of
                     None \<Rightarrow>
                       (\<lparr>res_response = regular_text r, res_tool_used = None,
                         res_tool_result = None, res_mode = ''regular'', res_error = None\<rparr>,
                        self, w)
                   | Some None \<Rightarrow>
                       (error_result (AttributeError (quoted ''NoneType''
                                        @ '' object has no attribute '' @ quoted ''name'')), self, w)
                   | Some (Some call) \<Rightarrow>
                       (case execute_tool_call today self call w of
                          Inl e \<Rightarrow> (error_result e, self, w)
                        | Inr (function_result, self', w') \<Rightarrow>
                            (case client (history @ [CallContent call,
                                                     FunctionResponse (fc_name call) function_result])
                                    prompt False of
                               Inl e \<Rightarrow> (error_result e, self', w')
                             | Inr follow_up \<Rightarrow>
                                 (case function_result of
                                    None \<Rightarrow>
                                      (error_result (AttributeError (quoted ''NoneType''
                                         @ '' object has no attribute '' @ quoted ''get'')),
                                       self', w')
                                  | Some tr \<Rightarrow>
                                      (\<lparr>res_response =
                                           (if status tr = ''success''
                                            then or_else (Some (message tr)) ''Appointment updated.''
                                            else or_else (Some (message tr))
                                                   ''There was a problem with your request.''),
                                         res_tool_used = Some (fc_name call),
                                         res_tool_result = Some tr,
                                         res_mode = ''tool_calling'', res_error = None\<rparr>,
                                       self', w')))))
              | [] \<Rightarrow>
                  (\<lparr>res_response = regular_text r, res_tool_used = None,
                    res_tool_result = None, res_mode = ''regular'', res_error = None\<rparr>,
                   self, w)))"

text \<open>
  \<open>generate_response_with_tools\<close>: a direct booking that succeeds is the answer; otherwise
  the protocol runs in the world the attempt left.
\<close>

definition generate_response_with_tools ::
    "generation_service \<Rightarrow> date \<Rightarrow> ragbot \<Rightarrow> string \<Rightarrow> string \<Rightarrow> turn list \<Rightarrow> pyval \<Rightarrow> world
     \<Rightarrow> chat_result \<times> ragbot \<times> world" where
  "generate_response_with_tools client today self user_message system_prompt chat_history
       user_id w =
     (case direct_booking today self user_message user_id w of
        None \<Rightarrow>
          tool_protocol client today self user_message system_prompt chat_history user_id w
      | Some (None, w1) \<Rightarrow>
          tool_protocol client today self user_message system_prompt chat_history user_id w1
      | Some (Some direct, w1) \<Rightarrow>
          (if status direct = ''success'' then
             (\<lparr>res_response = or_else (Some (message direct)) ''Appointment confirmed.'',
               res_tool_used = Some ''book_appointment_slot'',
               res_tool_result = Some direct,
               res_mode = ''tool_calling'', res_error = None\<rparr>, self, w1)
           else
             tool_protocol client today self user_message system_prompt chat_history user_id w1))"

text \<open>
  Generation services for examples: both answer the first call with a call of
  \<open>get_available_slots\<close> for 1 December 2026; the second call gets a narration from the
  one and fails for the other.
\<close>

definition example_call :: function_call where
  "example_call =
     \<lparr>fc_name = ''get_available_slots'', fc_args = Some [(''date'', PStr ''2026-12-01'')]\<rparr>"

definition example_first_response :: gen_response where
  "example_first_response =
     \<lparr>candidates = [Content [\<lparr>part_text = None, function_call_attr = Some (Some example_call)\<rparr>]],
      response_text = None\<rparr>"

definition narrating_service :: generation_service where
  "narrating_service contents prompt with_tools =
     (if with_tools then Inr example_first_response
      else Inr \<lparr>candidates = [], response_text = Some ''We have one opening at eleven.''\<rparr>)"

definition failing_service :: generation_service where
  "failing_service contents prompt with_tools =
     (if with_tools then Inr example_first_response
      else Inl (GenerationError ''503 UNAVAILABLE''))"

section \<open>Verified properties\<close>

subsection \<open>Time normalizer\<close>

text \<open>
  C6: \<open>normalize_time\<close> returns each of the eight canonical time labels as it is, and
  the spellings \<open>4pm\<close>, \<open>16:00\<close> and \<open>4:00 PM\<close> all normalize to \<open>4:00 PM\<close>.
\<close>

theorem normalize_time_canonical:
  "map (normalize_time \<circ> PStr) TIME_COLUMNS = map PStr TIME_COLUMNS
   \<and> normalize_time (PStr ''4pm'') = PStr ''4:00 PM''
   \<and> normalize_time (PStr ''16:00'') = PStr ''4:00 PM''
   \<and> normalize_time (PStr ''4:00 PM'') = PStr ''4:00 PM''"
  by code_simp

subsection \<open>Slot store\<close>

lemma index_of_Some: "index_of x xs = Some j \<Longrightarrow> j < length xs \<and> xs ! j = x"
  by (induction xs arbitrary: j) (auto split: if_splits)

lemma first_row_Some:
  "first_row c d rs = Some i \<Longrightarrow> i < length rs \<and> c < length (rs ! i) \<and> rs ! i ! c = d"
  by (induction rs arbitrary: i) (auto split: if_splits)

lemma first_row_update:
  "first_row c d rs = Some i \<Longrightarrow> c < length r' \<Longrightarrow> r' ! c = d
   \<Longrightarrow> first_row c d (rs[i := r']) = Some i"
  by (induction rs arbitrary: i) (auto split: if_splits)

lemma put_cell_other:
  "j \<noteq> c \<Longrightarrow> c < length r \<Longrightarrow> c < length (put_cell r j v) \<and> put_cell r j v ! c = r ! c"
  by (auto simp: put_cell_def nth_append)

lemma cell_of_put_cell: "cell_of (put_cell r j v) j = v"
  by (auto simp: put_cell_def cell_of_def nth_append)

text \<open>
  C1: a blackout cell should never be overwritten by a booking. \<open>book_slot\<close> breaks this:
  its check exempts the marker from the refusal and the write follows, although the slot
  lookup treats the marker as a slot that is not offered. On the example worksheet the
  9:00 AM cell of 1 December 2026 holds the marker; the booking is accepted and the
  cell then holds the user id.
\<close>

theorem book_slot_overwrites_blackout_cell:
  "slot_cell ''2026-12-01'' ''9:00 AM'' example_sheet = Some ''suday''
   \<and> is_blackout ''suday''
   \<and> map_of (fst (book_slot ''2026-12-01'' ''9:00 AM'' ''Taha-9999'' example_sheet)) ''status''
       = Some ''Success''
   \<and> slot_cell ''2026-12-01'' ''9:00 AM''
        (snd (book_slot ''2026-12-01'' ''9:00 AM'' ''Taha-9999'' example_sheet))
      = Some ''Taha-9999''
   \<and> map (\<lambda>slot. map_of slot ''time'') (get_available_slots ''2026-12-01'' example_sheet)
       = [Some ''11:00 AM'']"
  by code_simp

text \<open>
  What \<open>book_slot\<close> does to the cell of the slot in general: a cell that is blank after
  stripping, or that holds the blackout marker, is overwritten with the user id and the
  booking succeeds; any other cell holds an occupant, the booking is refused and the
  worksheet stays as it is.
\<close>

lemma book_slot_cell:
  assumes "slot_cell d t ws = Some v" and "t \<noteq> ''Date''"
  shows "(is_blackout v \<or> strip v = [] \<longrightarrow>
            slot_cell d t (snd (book_slot d t u ws)) = Some u
            \<and> map_of (fst (book_slot d t u ws)) ''status'' = Some ''Success'')
       \<and> (\<not> is_blackout v \<and> strip v \<noteq> [] \<longrightarrow>
            snd (book_slot d t u ws) = ws
            \<and> map_of (fst (book_slot d t u ws)) ''status'' = Some ''Error'')"
proof -
  from assms(1) obtain headers rows dc i j where
    ws: "ws = Some (headers # rows)" and
    dc: "index_of ''Date'' headers = Some dc" and
    i: "first_row dc d rows = Some i" and
    j: "index_of t headers = Some j" and
    v: "v = cell_of (rows ! i) j"
    by (auto simp: slot_cell_def split: option.splits list.splits)
  have ne: "j \<noteq> dc"
  proof
    assume "j = dc"
    with index_of_Some [OF dc] index_of_Some [OF j] have "t = ''Date''" by simp
    with assms(2) show False by simp
  qed
  from i have ir: "i < length rows" "dc < length (rows ! i)" "rows ! i ! dc = d"
    using first_row_Some by blast+
  have strip_ne: "strip v \<noteq> [] \<Longrightarrow> v \<noteq> []"
    by (auto simp: strip_def rstrip_def lstrip_def)
  show ?thesis
  proof (intro conjI impI)
    assume b: "is_blackout v \<or> strip v = []"
    then have nb: "\<not> (v \<noteq> [] \<and> lower (strip v) \<notin> set [blackout, []])"
      by (auto simp: is_blackout_def lower_def)
    have bs: "book_slot d t u ws =
      ([(''status'', ''Success''),
        (''message'', ''Slot booked successfully on '' @ d @ '' at '' @ t @ '' for '' @ u @ ''.''),
        (''cell_updated'', ''Row '' @ str_nat (i + 2) @ '', Column '' @ str_nat (j + 1))],
       Some (headers # rows[i := put_cell (rows ! i) j u]))"
      using nb unfolding book_slot_def open_sheet_def ws
      by (simp add: dc i j v [symmetric] Let_def del: str_nat.simps)
    have fr: "first_row dc d (rows[i := put_cell (rows ! i) j u]) = Some i"
      using first_row_update [OF i] put_cell_other [OF ne ir(2)] ir(3) by simp
    show "slot_cell d t (snd (book_slot d t u ws)) = Some u"
      by (simp add: bs slot_cell_def dc fr j ir(1) cell_of_put_cell del: str_nat.simps)
    show "map_of (fst (book_slot d t u ws)) ''status'' = Some ''Success''"
      by (simp add: bs del: str_nat.simps)
  next
    assume o: "\<not> is_blackout v \<and> strip v \<noteq> []"
    then have oc: "v \<noteq> [] \<and> lower (strip v) \<notin> set [blackout, []]"
      using strip_ne by (auto simp: is_blackout_def lower_def)
    have bs: "book_slot d t u ws =
      ([(''status'', ''Error''), (''message'', ''Slot already booked by '' @ v @ ''.'')], ws)"
      using oc unfolding book_slot_def open_sheet_def ws
      by (simp add: dc i j v [symmetric] Let_def del: str_nat.simps)
    show "snd (book_slot d t u ws) = ws" by (simp add: bs)
    show "map_of (fst (book_slot d t u ws)) ''status'' = Some ''Error''" by (simp add: bs)
  qed
qed

lemma example_sheet_cells:
  "slot_cell ''2026-12-01'' ''9:00 AM'' example_sheet = Some ''suday''"
  "slot_cell ''2026-12-01'' ''10:00 AM'' example_sheet = Some ''Bob-1''"
  "slot_cell ''2026-12-01'' ''11:00 AM'' example_sheet = Some []"
  "is_blackout ''suday''" "\<not> is_blackout ''Bob-1''" "strip ''Bob-1'' \<noteq> []" "strip [] = []"
  by code_simp+

lemma book_slot_cell_example:
  "slot_cell ''2026-12-01'' ''9:00 AM''
     (snd (book_slot ''2026-12-01'' ''9:00 AM'' ''Taha-9999'' example_sheet)) = Some ''Taha-9999''
   \<and> slot_cell ''2026-12-01'' ''11:00 AM''
       (snd (book_slot ''2026-12-01'' ''11:00 AM'' ''Taha-9999'' example_sheet)) = Some ''Taha-9999''
   \<and> snd (book_slot ''2026-12-01'' ''10:00 AM'' ''Taha-9999'' example_sheet) = example_sheet"
  using book_slot_cell
          [of "''2026-12-01''" "''9:00 AM''" example_sheet "''suday''" "''Taha-9999''"]
        book_slot_cell
          [of "''2026-12-01''" "''11:00 AM''" example_sheet "[]" "''Taha-9999''"]
        book_slot_cell
          [of "''2026-12-01''" "''10:00 AM''" example_sheet "''Bob-1''" "''Taha-9999''"]
        example_sheet_cells
  by simp

subsection \<open>Tool executor: validation before any store call\<close>

text \<open>
  C10: \<open>safe_execute\<close> for \<open>get_available_slots\<close> or \<open>book_appointment_slot\<close> with the date
  argument absent or \<open>None\<close> answers with status \<open>execution_error\<close> (the \<open>TypeError\<close> of the
  pattern match on \<open>None\<close>, caught by the outer handler), not \<open>validation_error\<close>, and sends
  no request to the store: the world is unchanged.
\<close>

theorem safe_execute_date_absent:
  assumes "kw_get kw ''date'' = PNone"
    and "fn = ''get_available_slots'' \<or> fn = ''book_appointment_slot''"
  shows "\<exists>r. safe_execute today api_base_urls fn kw w = (Some r, w)
             \<and> status r = ''execution_error'' \<and> status r \<noteq> ''validation_error''"
  using assms
  by (auto simp: safe_execute_def validate_booking_params_def execution_error_def)

theorem safe_execute_date_absent_witness:
  "kw_get [] ''date'' = PNone
   \<and> (\<exists>r. safe_execute example_today example_urls ''get_available_slots'' [] example_world
               = (Some r, example_world)
             \<and> status r = ''execution_error'')
   \<and> kw_get [(''date'', PNone), (''time'', PStr ''9:00 AM''), (''user_id'', PStr ''Taha-9999'')]
         ''date'' = PNone
   \<and> (\<exists>r. safe_execute example_today example_urls ''book_appointment_slot''
               [(''date'', PNone), (''time'', PStr ''9:00 AM''), (''user_id'', PStr ''Taha-9999'')]
               example_world
               = (Some r, example_world)
             \<and> status r = ''execution_error'')"
  using safe_execute_date_absent
          [of "[]" "''get_available_slots''" example_today example_urls example_world]
        safe_execute_date_absent
          [of "[(''date'', PNone), (''time'', PStr ''9:00 AM''), (''user_id'', PStr ''Taha-9999'')]"
              "''book_appointment_slot''" example_today example_urls example_world]
  by (auto simp: kw_get_def)





subsection \<open>Unknown tool names\<close>

lemma starts_with_append: "starts_with (p @ s) p"
  by (induction p) auto

text \<open>
  C8: for a function name other than the two tools, \<open>safe_execute\<close> should answer with
  status \<open>execution_error\<close> and the message \<open>Unknown function\<close>, without a store call. The
  status and the absence of a store call hold; the message does not: \<open>safe_execute\<close> has
  no branch for an unknown name, so the message is the text of the \<open>AttributeError\<close> of
  \<open>getattr\<close> behind a fixed prefix, and \<open>Unknown function\<close> does not occur in it, which the
  repository's own test of \<open>safe_execute("invalid_function")\<close> expects.
\<close>

theorem safe_execute_invalid_function:
  "(case safe_execute example_today example_urls ''invalid_function'' [] example_world of
      (Some r, w') \<Rightarrow>
        status r = ''execution_error''
        \<and> message r = cross_mark @ '' Function execution failed: ''
             @ quoted ''BookingToolExecutor'' @ '' object has no attribute ''
             @ quoted ''invalid_function''
        \<and> \<not> str_in ''Unknown function'' (message r)
        \<and> w' = example_world
    | (None, w') \<Rightarrow> False)"
  by code_simp

theorem safe_execute_invalid_function_witness:
  "map_option status
     (fst (safe_execute example_today example_urls ''invalid_function'' [] example_world))
     = Some ''execution_error''
   \<and> snd (safe_execute example_today example_urls ''invalid_function'' [] example_world)
       = example_world"
  using safe_execute_invalid_function
  by (auto split: prod.splits option.splits)

text \<open>
  In general: for every function name other than the two tools (and not of the form
  \<open>__x__\<close>), \<open>safe_execute\<close> answers with status \<open>execution_error\<close> and sends nothing to the
  store; its message is \<open>Function execution failed:\<close> with the text of the exception. The
  wording \<open>Unknown function\<close> is that of \<open>execute_tool_call\<close>, which answers such a name
  itself, with status \<open>error\<close>, without calling \<open>safe_execute\<close>.
\<close>

lemma safe_execute_unknown_function:
  assumes "fn \<noteq> ''get_available_slots''" and "fn \<noteq> ''book_appointment_slot''"
    and "getattr_executor fn \<noteq> Special"
  shows "(\<exists>r. safe_execute today api_base_urls fn kw w = (Some r, w)
              \<and> status r = ''execution_error''
              \<and> starts_with (message r) (cross_mark @ '' Function execution failed: '')
              \<and> message r \<noteq> ''Unknown function''
              \<and> (getattr_executor fn = Missing \<longrightarrow>
                    message r = cross_mark @ '' Function execution failed: ''
                      @ quoted ''BookingToolExecutor'' @ '' object has no attribute '' @ quoted fn))
         \<and> execute_tool_call today self \<lparr>fc_name = fn, fc_args = args\<rparr> w
             = Inr (Some \<lparr>status = ''error'', message = ''Unknown function: '' @ fn,
                          available_slots = None, booking_details = None\<rparr>, self, w)"
proof -
  have "getattr_executor fn = SafeExecute \<or> getattr_executor fn = ApiBaseUrls
        \<or> getattr_executor fn = Missing"
    using assms by (auto simp: getattr_executor_def split: if_splits)
  then obtain e where d: "dispatch api_base_urls fn kw w = (Inl e, w)"
    and m: "getattr_executor fn = Missing \<longrightarrow>
              e = AttributeError (quoted ''BookingToolExecutor'' @ '' object has no attribute ''
                                   @ quoted fn)"
    by (auto simp: dispatch_def)
  have se: "safe_execute today api_base_urls fn kw w = (Some (execution_error e), w)"
    using assms(1,2) d by (simp add: safe_execute_def)
  have sw: "starts_with (message (execution_error e))
              (cross_mark @ '' Function execution failed: '')"
    unfolding execution_error_def
    using starts_with_append [of "cross_mark @ '' Function execution failed: ''" "str_exn e"]
    by simp
  have ne: "message (execution_error e) \<noteq> ''Unknown function''"
    by (simp add: execution_error_def cross_mark_def)
  show ?thesis
    using se sw ne m assms(1,2)
    by (simp add: execute_tool_call_def execution_error_def)
qed

lemma example_unknown_name:
  "''cancel_appointment'' \<noteq> ''get_available_slots''"
  "''cancel_appointment'' \<noteq> ''book_appointment_slot''"
  "getattr_executor ''cancel_appointment'' = Missing"
  by code_simp+

lemma safe_execute_unknown_function_example:
  "''cancel_appointment'' \<noteq> ''get_available_slots''
   \<and> ''cancel_appointment'' \<noteq> ''book_appointment_slot''
   \<and> getattr_executor ''cancel_appointment'' = Missing
   \<and> (\<exists>r. safe_execute example_today example_urls ''cancel_appointment'' [] example_world
              = (Some r, example_world)
            \<and> status r = ''execution_error''
            \<and> message r = cross_mark @ '' Function execution failed: ''
                @ quoted ''BookingToolExecutor'' @ '' object has no attribute ''
                @ quoted ''cancel_appointment'')
   \<and> execute_tool_call example_today example_bot
        \<lparr>fc_name = ''cancel_appointment'', fc_args = Some []\<rparr> example_world
       = Inr (Some \<lparr>status = ''error'', message = ''Unknown function: cancel_appointment'',
                    available_slots = None, booking_details = None\<rparr>, example_bot, example_world)"
  using safe_execute_unknown_function
          [of "''cancel_appointment''" example_today example_urls "[]" example_world
              example_bot "Some []"]
        example_unknown_name
  by auto

subsection \<open>The booking date inferred from the last slot lookup\<close>

text \<open>
  C9 as stated fails in its description of \<open>last_slots_date\<close>: a slot lookup whose
  normalized date is empty does not update it, so the date of an earlier lookup stays.
\<close>

theorem lookup_without_date_counterexample:
  "(case execute_tool_call example_today (example_bot\<lparr>last_slots_date := PStr ''2026-12-01''\<rparr>)
           \<lparr>fc_name = ''get_available_slots'', fc_args = Some [(''date'', PStr [])]\<rparr>
           example_world of
      Inr (result, self', w') \<Rightarrow>
        last_slots_date self' = PStr ''2026-12-01''
        \<and> last_slots_date self' \<noteq> normalize_date example_today (PStr [])
    | Inl e \<Rightarrow> False)"
  by code_simp

text \<open>
  C9 (amended): when the arguments of \<open>book_appointment_slot\<close> omit the date or leave it
  empty, \<open>execute_tool_call\<close> books with \<open>last_slots_date\<close> in its place, normalized, with
  the time normalized and the user id passed on as it is; a slot lookup sets
  \<open>last_slots_date\<close> to its normalized date argument when that is not empty and leaves
  it alone otherwise. So a booking without a date that follows a lookup with a date is
  made for the date of that lookup.
\<close>

theorem execute_tool_call_date_inference:
  assumes "fc_name lookup = ''get_available_slots''" and "fc_args lookup = Some lookup_args"
    and "fc_name booking = ''book_appointment_slot''" and "fc_args booking = Some booking_args"
    and "\<not> truthy (kw_get booking_args ''date'')"
  shows "execute_tool_call today self booking w =
           (case safe_execute today (booking_executor self) ''book_appointment_slot''
                   [(''date'', normalize_date today (last_slots_date self)),
                    (''time'', normalize_time (kw_get booking_args ''time'')),
                    (''user_id'', kw_get booking_args ''user_id'')] w of
              (result, w') \<Rightarrow> Inr (result, self, w'))
       \<and> (\<exists>result w'. execute_tool_call today self lookup w =
             Inr (result,
                  self\<lparr>last_slots_date :=
                         (if truthy (normalize_date today (kw_get lookup_args ''date''))
                          then normalize_date today (kw_get lookup_args ''date'')
                          else last_slots_date self)\<rparr>, w'))
       \<and> (truthy (normalize_date today (kw_get lookup_args ''date''))
            \<and> execute_tool_call today self lookup w = Inr (result1, self1, w1) \<longrightarrow>
          execute_tool_call today self1 booking w1 =
            (case safe_execute today (booking_executor self) ''book_appointment_slot''
                    [(''date'', normalize_date today
                                  (normalize_date today (kw_get lookup_args ''date''))),
                     (''time'', normalize_time (kw_get booking_args ''time'')),
                     (''user_id'', kw_get booking_args ''user_id'')] w1 of
               (result, w') \<Rightarrow> Inr (result, self1, w')))"
proof -
  have b: "execute_tool_call today s booking v =
           (case safe_execute today (booking_executor s) ''book_appointment_slot''
                   [(''date'', normalize_date today (last_slots_date s)),
                    (''time'', normalize_time (kw_get booking_args ''time'')),
                    (''user_id'', kw_get booking_args ''user_id'')] v of
              (result, w') \<Rightarrow> Inr (result, s, w'))" for s v
    using assms(3,4,5) by (simp add: execute_tool_call_def py_or_def)
  have l: "\<exists>result w'. execute_tool_call today self lookup w =
           Inr (result,
                self\<lparr>last_slots_date :=
                       (if truthy (normalize_date today (kw_get lookup_args ''date''))
                        then normalize_date today (kw_get lookup_args ''date'')
                        else last_slots_date self)\<rparr>, w')"
    using assms(1,2) by (auto simp: execute_tool_call_def Let_def split: prod.splits)
  have "execute_tool_call today self1 booking w1 =
           (case safe_execute today (booking_executor self) ''book_appointment_slot''
                   [(''date'', normalize_date today
                                 (normalize_date today (kw_get lookup_args ''date''))),
                    (''time'', normalize_time (kw_get booking_args ''time'')),
                    (''user_id'', kw_get booking_args ''user_id'')] w1 of
              (result, w') \<Rightarrow> Inr (result, self1, w'))"
    if t: "truthy (normalize_date today (kw_get lookup_args ''date''))"
      and e: "execute_tool_call today self lookup w = Inr (result1, self1, w1)"
  proof -
    from l e t
    have "self1 = self\<lparr>last_slots_date := normalize_date today (kw_get lookup_args ''date'')\<rparr>"
      by auto
    then show ?thesis by (simp add: b)
  qed
  with b l show ?thesis by blast
qed

text \<open>A lookup for 1 December 2026 followed by a booking that names no date.\<close>

lemma example_lookup_then_booking:
  "\<not> truthy (kw_get [(''time'', PStr ''11am''), (''user_id'', PStr ''Taha-9999'')] ''date'')"
  "truthy (normalize_date example_today (kw_get [(''date'', PStr ''2026-12-01'')] ''date''))"
  "execute_tool_call example_today example_bot
     \<lparr>fc_name = ''get_available_slots'', fc_args = Some [(''date'', PStr ''2026-12-01'')]\<rparr>
     example_world
   = Inr (Some \<lparr>status = ''success'', message = ''Available slots on 2026-12-01: 11:00 AM'',
                 available_slots = Some [''11:00 AM''], booking_details = None\<rparr>,
          example_bot\<lparr>last_slots_date := PStr ''2026-12-01''\<rparr>,
          example_world\<lparr>sent := [Get ''http://scheduler.example'' (PStr ''2026-12-01''),
                                  Get ''http://127.0.0.1:5200'' (PStr ''2026-12-01'')]\<rparr>)"
  by code_simp+

theorem execute_tool_call_date_inference_witness:
  "\<not> truthy (kw_get [(''time'', PStr ''11am''), (''user_id'', PStr ''Taha-9999'')] ''date'')
   \<and> truthy (normalize_date example_today (kw_get [(''date'', PStr ''2026-12-01'')] ''date''))
   \<and> execute_tool_call example_today (example_bot\<lparr>last_slots_date := PStr ''2026-12-01''\<rparr>)
        \<lparr>fc_name = ''book_appointment_slot'',
          fc_args = Some [(''time'', PStr ''11am''), (''user_id'', PStr ''Taha-9999'')]\<rparr>
        (example_world\<lparr>sent := [Get ''http://scheduler.example'' (PStr ''2026-12-01''),
                                 Get ''http://127.0.0.1:5200'' (PStr ''2026-12-01'')]\<rparr>)
      = (case safe_execute example_today example_urls ''book_appointment_slot''
                [(''date'', normalize_date example_today
                              (normalize_date example_today
                                 (kw_get [(''date'', PStr ''2026-12-01'')] ''date''))),
                 (''time'', normalize_time
                              (kw_get [(''time'', PStr ''11am''), (''user_id'', PStr ''Taha-9999'')]
                                 ''time'')),
                 (''user_id'', kw_get [(''time'', PStr ''11am''), (''user_id'', PStr ''Taha-9999'')]
                                 ''user_id'')]
                (example_world\<lparr>sent := [Get ''http://scheduler.example'' (PStr ''2026-12-01''),
                                         Get ''http://127.0.0.1:5200'' (PStr ''2026-12-01'')]\<rparr>) of
           (result, w') \<Rightarrow>
             Inr (result, example_bot\<lparr>last_slots_date := PStr ''2026-12-01''\<rparr>, w'))"
  using execute_tool_call_date_inference
          [of "\<lparr>fc_name = ''get_available_slots'', fc_args = Some [(''date'', PStr ''2026-12-01'')]\<rparr>"
              "[(''date'', PStr ''2026-12-01'')]"
              "\<lparr>fc_name = ''book_appointment_slot'',
                fc_args = Some [(''time'', PStr ''11am''), (''user_id'', PStr ''Taha-9999'')]\<rparr>"
              "[(''time'', PStr ''11am''), (''user_id'', PStr ''Taha-9999'')]"
              example_today example_bot example_world]
        example_lookup_then_booking
  by (simp add: example_bot_def)

subsection \<open>The two empty outcomes of a slot lookup\<close>










subsection \<open>Intent router\<close>



















end
